theory Spec2Isabelle
  imports Main "HOL-Library.AList"
begin

section \<open>Game room service (services/gameRoomService)\<close>

text \<open>
  The registry is the \<^verbatim>\<open>Map<string, GameRoom>\<close> held by \<^verbatim>\<open>GameRoomService\<close>. A JavaScript
  Map iterates in insertion order, \<^verbatim>\<open>set\<close> on a present key replaces the value in place and
  \<^verbatim>\<open>delete\<close> removes the entry, so the registry is an association list handled with
  \<^const>\<open>AList.update\<close> and \<^const>\<open>AList.delete\<close>. Timestamps (\<^verbatim>\<open>new Date()\<close>) are natural
  numbers handed to the handlers by the caller. The room objects are mutated in place by
  the source; the model stores the changed room back under its key, at the same position.
\<close>

record Player =
  socketId :: string
  name :: string
  joinedAt :: nat

record GameRoom =
  room_id :: string
  players :: "Player list"
  gameState :: "string option"
  createdAt :: nat

type_synonym registry = "(string \<times> GameRoom) list"

definition createRoom :: "registry \<Rightarrow> string \<Rightarrow> nat \<Rightarrow> GameRoom \<times> registry" where
  "createRoom reg rid now =
     (let room = \<lparr>room_id = rid, players = [], gameState = None, createdAt = now\<rparr>
      in (room, AList.update rid room reg))"

definition deleteRoom :: "registry \<Rightarrow> string \<Rightarrow> bool \<times> registry" where
  "deleteRoom reg rid = (map_of reg rid \<noteq> None, AList.delete rid reg)"

definition roomExists :: "registry \<Rightarrow> string \<Rightarrow> bool" where
  "roomExists reg rid = (map_of reg rid \<noteq> None)"

definition getRoom :: "registry \<Rightarrow> string \<Rightarrow> GameRoom option" where
  "getRoom reg rid = map_of reg rid"

definition getAllRooms :: "registry \<Rightarrow> GameRoom list" where
  "getAllRooms reg = map snd reg"

definition addPlayerToRoom :: "registry \<Rightarrow> string \<Rightarrow> Player \<Rightarrow> bool \<times> registry" where
  "addPlayerToRoom reg rid player =
     (case map_of reg rid of
        None \<Rightarrow> (False, reg)
      | Some room \<Rightarrow> (True, AList.update rid (room\<lparr>players := players room @ [player]\<rparr>) reg))"

text \<open>\<^verbatim>\<open>Array.prototype.findIndex\<close>: the index of the first match, \<^verbatim>\<open>-1\<close> being \<open>None\<close>.\<close>

fun findIndex :: "('a \<Rightarrow> bool) \<Rightarrow> 'a list \<Rightarrow> nat option" where
  "findIndex P [] = None"
| "findIndex P (x # xs) =
     (if P x then Some 0 else (case findIndex P xs of None \<Rightarrow> None | Some i \<Rightarrow> Some (Suc i)))"

text \<open>\<^verbatim>\<open>xs.splice(index, 1)\<close>: the element at the index is taken out, the order is kept.\<close>

definition splice1 :: "nat \<Rightarrow> 'a list \<Rightarrow> 'a list" where
  "splice1 i xs = take i xs @ drop (Suc i) xs"

definition removePlayerFromRoom :: "registry \<Rightarrow> string \<Rightarrow> string \<Rightarrow> bool \<times> registry" where
  "removePlayerFromRoom reg rid sid =
     (case map_of reg rid of
        None \<Rightarrow> (False, reg)
      | Some room \<Rightarrow>
          (case findIndex (\<lambda>p. socketId p = sid) (players room) of
             None \<Rightarrow> (False, reg)
           | Some i \<Rightarrow> (True, AList.update rid (room\<lparr>players := splice1 i (players room)\<rparr>) reg)))"

definition getRoomPlayers :: "registry \<Rightarrow> string \<Rightarrow> Player list" where
  "getRoomPlayers reg rid = (case map_of reg rid of None \<Rightarrow> [] | Some room \<Rightarrow> players room)"

definition getPlayerCount :: "registry \<Rightarrow> string \<Rightarrow> nat" where
  "getPlayerCount reg rid = (case map_of reg rid of None \<Rightarrow> 0 | Some room \<Rightarrow> length (players room))"


section \<open>The transport: socket.io rooms and emitters\<close>

text \<open>
  socket.io keeps, for every connected socket, the set \<^verbatim>\<open>socket.rooms\<close> of the groups it has
  joined, in insertion order; a new socket is in the group named by its own id.
  \<^verbatim>\<open>socket.join\<close> adds a group, \<^verbatim>\<open>socket.leave\<close> removes one. The transport state lists the
  connected sockets with their groups.
\<close>

type_synonym transport = "(string \<times> string list) list"

definition socket_rooms :: "transport \<Rightarrow> string \<Rightarrow> string list" where
  "socket_rooms tr sid = (case map_of tr sid of None \<Rightarrow> [] | Some rs \<Rightarrow> rs)"

fun socket_join :: "transport \<Rightarrow> string \<Rightarrow> string \<Rightarrow> transport" where
  "socket_join [] sid r = []"
| "socket_join ((s, rs) # tr) sid r =
     (if s = sid then (s, if r \<in> set rs then rs else rs @ [r]) # tr
      else (s, rs) # socket_join tr sid r)"

fun socket_leave :: "transport \<Rightarrow> string \<Rightarrow> string \<Rightarrow> transport" where
  "socket_leave [] sid r = []"
| "socket_leave ((s, rs) # tr) sid r =
     (if s = sid then (s, removeAll r rs) # tr else (s, rs) # socket_leave tr sid r)"

text \<open>
  Where an emission goes: \<^verbatim>\<open>socket.emit\<close> (the socket itself), \<^verbatim>\<open>io.to(room).emit\<close> (every
  socket in the group) and \<^verbatim>\<open>socket.to(room).emit\<close> (every socket in the group but the
  emitting one).
\<close>

datatype target =
    ToSocket string
  | ToRoom string
  | ToRoomExcept string string

fun recipients :: "transport \<Rightarrow> target \<Rightarrow> string list" where
  "recipients tr (ToSocket sid) = [s \<leftarrow> map fst tr. s = sid]"
| "recipients tr (ToRoom r) = [s \<leftarrow> map fst tr. r \<in> set (socket_rooms tr s)]"
| "recipients tr (ToRoomExcept r sid) = [s \<leftarrow> map fst tr. r \<in> set (socket_rooms tr s) \<and> s \<noteq> sid]"

record message_data =
  senderId :: string
  senderName :: "string option"
  content :: string
  timestamp :: nat
  msg_roomId :: string

record roster_entry =
  roster_name :: string
  roster_socketId :: string
  symbol :: string

text \<open>
  The outbound events with their payloads; an absent (\<^verbatim>\<open>undefined\<close>) field is \<open>None\<close>.
  The fields \<^verbatim>\<open>roomId\<close> of a message and \<^verbatim>\<open>name\<close>, \<^verbatim>\<open>socketId\<close> of a roster entry carry a
  prefix above, the plain names being those of the event data and of \<open>Player\<close>.
\<close>

datatype payload =
    Connection_response string string string
  | Join_room_response string "string option" "Player list option" string
  | Player_joined string "Player list" string nat
  | Message_response string string
  | Receive_message message_data
  | Leave_room_response string string
  | Player_left string "Player list" string nat
  | Game_start_out string "roster_entry list" string
  | Game_move_out "string list" "string option" "string option"
  | Game_reset_out "string option"

type_synonym emission = "target \<times> payload"


section \<open>Session protocol handler (config/socket)\<close>

text \<open>
  The data object of an inbound event. A field the client left out is \<open>None\<close>; the fields
  are strings (the board is an array). \<^verbatim>\<open>!x\<close> holds of a missing field and of the
  empty string; an array is never falsy.
\<close>

record event_data =
  roomId :: "string option"
  playerName :: "string option"
  message :: "string option"
  gameType :: "string option"
  board :: "string list option"
  playerSymbol :: "string option"

definition truthy :: "string option \<Rightarrow> bool" where
  "truthy v = (case v of None \<Rightarrow> False | Some s \<Rightarrow> s \<noteq> [])"

text \<open>A value inside a template string: \<^verbatim>\<open>undefined\<close> prints as such.\<close>

definition js_str :: "string option \<Rightarrow> string" where
  "js_str v = (case v of None \<Rightarrow> ''undefined'' | Some s \<Rightarrow> s)"

record server_state =
  rooms :: registry
  transport :: transport

definition init_state :: server_state where
  "init_state = \<lparr>rooms = [], transport = []\<rparr>"

definition connection :: "string \<Rightarrow> server_state \<Rightarrow> server_state \<times> emission list" where
  "connection sid st =
     (st\<lparr>transport := transport st @ [(sid, [sid])]\<rparr>,
      [(ToSocket sid,
        Connection_response ''connected'' sid ''Successfully connected to gaming server'')])"

definition join_room :: "nat \<Rightarrow> string \<Rightarrow> event_data \<Rightarrow> server_state \<Rightarrow> server_state \<times> emission list" where
  "join_room now sid d st =
     (if \<not> truthy (roomId d) \<or> \<not> truthy (playerName d) then
        (st, [(ToSocket sid,
               Join_room_response ''error'' None None ''Room ID and player name are required'')])
      else
        let rid = the (roomId d);
            pname = the (playerName d);
            tr1 = (if length (socket_rooms (transport st) sid) > 1 then
                     (case find (\<lambda>room. room \<noteq> sid) (socket_rooms (transport st) sid) of
                        None \<Rightarrow> transport st
                      | Some previousRoom \<Rightarrow> socket_leave (transport st) sid previousRoom)
                   else transport st);
            reg1 = (if \<not> roomExists (rooms st) rid then snd (createRoom (rooms st) rid now)
                    else rooms st);
            tr2 = socket_join tr1 sid rid;
            reg2 = snd (addPlayerToRoom reg1 rid \<lparr>socketId = sid, name = pname, joinedAt = now\<rparr>);
            ps = getRoomPlayers reg2 rid
        in (\<lparr>rooms = reg2, transport = tr2\<rparr>,
            [(ToRoom rid, Player_joined rid ps (pname @ '' has joined the room'') (length ps)),
             (ToSocket sid,
              Join_room_response ''success'' (Some rid) (Some ps) (''You have joined room '' @ rid))]))"

definition send_message :: "nat \<Rightarrow> string \<Rightarrow> event_data \<Rightarrow> server_state \<Rightarrow> server_state \<times> emission list" where
  "send_message now sid d st =
     (if \<not> truthy (roomId d) \<or> \<not> truthy (message d) then
        (st, [(ToSocket sid,
               Message_response ''error'' ''Room ID and message content are required'')])
      else
        let rid = the (roomId d) in
        if \<not> roomExists (rooms st) rid then
          (st, [(ToSocket sid,
                 Message_response ''error'' (''Room '' @ rid @ '' does not exist''))])
        else
          (st, [(ToRoom rid,
                 Receive_message \<lparr>senderId = sid, senderName = playerName d,
                   content = the (message d), timestamp = now, msg_roomId = rid\<rparr>)]))"

definition leave_room :: "string \<Rightarrow> event_data \<Rightarrow> server_state \<Rightarrow> server_state \<times> emission list" where
  "leave_room sid d st =
     (if \<not> truthy (roomId d) then
        (st, [(ToSocket sid, Leave_room_response ''error'' ''Room ID is required'')])
      else
        let rid = the (roomId d) in
        if \<not> roomExists (rooms st) rid then
          (st, [(ToSocket sid,
                 Leave_room_response ''error'' (''Room '' @ rid @ '' does not exist''))])
        else
          let tr1 = socket_leave (transport st) sid rid;
              reg1 = snd (removePlayerFromRoom (rooms st) rid sid);
              ps = getRoomPlayers reg1 rid;
              ok = (ToSocket sid,
                    Leave_room_response ''success'' (''You have left room '' @ rid))
          in if length ps > 0 then
               (\<lparr>rooms = reg1, transport = tr1\<rparr>,
                [(ToRoom rid,
                  Player_left rid ps (js_str (playerName d) @ '' has left the room'') (length ps)),
                 ok])
             else
               (\<lparr>rooms = snd (deleteRoom reg1 rid), transport = tr1\<rparr>, [ok]))"

text \<open>\<^verbatim>\<open>players.map((p, idx) => ...)\<close>: the first entry is labelled X, every later one O.\<close>

fun roster_from :: "nat \<Rightarrow> Player list \<Rightarrow> roster_entry list" where
  "roster_from idx [] = []"
| "roster_from idx (p # ps) =
     \<lparr>roster_name = name p, roster_socketId = socketId p,
      symbol = (if idx = 0 then ''X'' else ''O'')\<rparr> # roster_from (Suc idx) ps"

definition game_start :: "string \<Rightarrow> event_data \<Rightarrow> server_state \<Rightarrow> server_state \<times> emission list" where
  "game_start sid d st =
     (if \<not> truthy (roomId d) \<or> \<not> truthy (gameType d) then (st, [])
      else
        let ps = getRoomPlayers (rooms st) (the (roomId d)) in
        if length ps < 2 then (st, [])
        else
          let roster = roster_from 0 ps in
          (st, [(ToRoom (socketId (ps ! 0)), Game_start_out (the (gameType d)) roster ''X''),
                (ToRoom (socketId (ps ! 1)), Game_start_out (the (gameType d)) roster ''O'')]))"

definition game_move :: "string \<Rightarrow> event_data \<Rightarrow> server_state \<Rightarrow> server_state \<times> emission list" where
  "game_move sid d st =
     (if \<not> truthy (roomId d) \<or> board d = None then (st, [])
      else (st, [(ToRoomExcept (the (roomId d)) sid,
                  Game_move_out (the (board d)) (playerSymbol d) (playerName d))]))"

definition game_reset :: "string \<Rightarrow> event_data \<Rightarrow> server_state \<Rightarrow> server_state \<times> emission list" where
  "game_reset sid d st =
     (if \<not> truthy (roomId d) then (st, [])
      else (st, [(ToRoomExcept (the (roomId d)) sid, Game_reset_out (playerName d))]))"

text \<open>
  One pass of the \<^verbatim>\<open>forEach\<close> of the disconnect handler over a room of the snapshot
  \<^verbatim>\<open>getAllRooms()\<close>. The room is a shared object in the source; no earlier pass touches it
  (the passes act on their own room ids), so its player list in the snapshot is the current
  one.
\<close>

definition disconnect_room :: "string \<Rightarrow> GameRoom \<Rightarrow> registry \<times> emission list \<Rightarrow> registry \<times> emission list" where
  "disconnect_room sid room acc =
     (case find (\<lambda>p. socketId p = sid) (players room) of
        None \<Rightarrow> acc
      | Some player \<Rightarrow>
          let reg1 = snd (removePlayerFromRoom (fst acc) (room_id room) sid);
              remainingPlayers = getRoomPlayers reg1 (room_id room)
          in if length remainingPlayers > 0 then
               (reg1, snd acc @
                 [(ToRoom (room_id room),
                   Player_left (room_id room) remainingPlayers
                     (name player @ '' has left the room'') (length remainingPlayers))])
             else (snd (deleteRoom reg1 (room_id room)), snd acc))"

text \<open>
  socket.io has taken the socket out of all its groups when the \<^verbatim>\<open>disconnect\<close> event fires;
  the handler then cleans the registry.
\<close>

definition disconnect :: "string \<Rightarrow> server_state \<Rightarrow> server_state \<times> emission list" where
  "disconnect sid st =
     (let res = fold (disconnect_room sid) (getAllRooms (rooms st)) (rooms st, [])
      in (\<lparr>rooms = fst res, transport = AList.delete sid (transport st)\<rparr>, snd res))"

datatype event =
    Connection
  | Join_room event_data
  | Send_message event_data
  | Leave_room event_data
  | Game_start event_data
  | Game_move event_data
  | Game_reset event_data
  | Disconnect

text \<open>
  An input is the time, the socket and the event. The handlers are registered when the
  socket connects and socket ids are never reused: an event of a socket that is not
  connected, and a second connection of a connected id, do nothing.
\<close>

definition connected :: "server_state \<Rightarrow> string \<Rightarrow> bool" where
  "connected st sid = (map_of (transport st) sid \<noteq> None)"

fun dispatch :: "nat \<Rightarrow> string \<Rightarrow> event \<Rightarrow> server_state \<Rightarrow> server_state \<times> emission list" where
  "dispatch now sid Connection st = (st, [])"
| "dispatch now sid (Join_room d) st = join_room now sid d st"
| "dispatch now sid (Send_message d) st = send_message now sid d st"
| "dispatch now sid (Leave_room d) st = leave_room sid d st"
| "dispatch now sid (Game_start d) st = game_start sid d st"
| "dispatch now sid (Game_move d) st = game_move sid d st"
| "dispatch now sid (Game_reset d) st = game_reset sid d st"
| "dispatch now sid Disconnect st = disconnect sid st"

definition step :: "nat \<times> string \<times> event \<Rightarrow> server_state \<Rightarrow> server_state \<times> emission list" where
  "step inp st =
     (case inp of (now, sid, ev) \<Rightarrow>
        if connected st sid then dispatch now sid ev st
        else if ev = Connection then connection sid st
        else (st, []))"

fun exec :: "(nat \<times> string \<times> event) list \<Rightarrow> server_state \<Rightarrow> server_state" where
  "exec [] st = st"
| "exec (inp # inps) st = exec inps (fst (step inp st))"

text \<open>The data objects a client sends, field by field.\<close>

definition no_data :: event_data where
  "no_data = \<lparr>roomId = None, playerName = None, message = None, gameType = None,
     board = None, playerSymbol = None\<rparr>"

definition join_data :: "string \<Rightarrow> string \<Rightarrow> event_data" where
  "join_data rid pname = no_data\<lparr>roomId := Some rid, playerName := Some pname\<rparr>"

definition start_data :: "string \<Rightarrow> string \<Rightarrow> event_data" where
  "start_data rid gt = no_data\<lparr>roomId := Some rid, gameType := Some gt\<rparr>"

definition leave_data :: "string \<Rightarrow> string \<Rightarrow> event_data" where
  "leave_data rid pname = no_data\<lparr>roomId := Some rid, playerName := Some pname\<rparr>"



section \<open>Notions used in the proofs\<close>

text \<open>What \<^verbatim>\<open>findIndex\<close> followed by \<^verbatim>\<open>splice(index, 1)\<close> computes: the first match is dropped.\<close>

fun remove_first :: "('a \<Rightarrow> bool) \<Rightarrow> 'a list \<Rightarrow> 'a list" where
  "remove_first P [] = []"
| "remove_first P (x # xs) = (if P x then xs else x # remove_first P xs)"

text \<open>
  The registry invariant: the keys are distinct, every room is stored under its own id
  and no stored room is empty.
\<close>

definition rooms_ok :: "registry \<Rightarrow> bool" where
  "rooms_ok reg =
     (distinct (map fst reg) \<and> list_all (\<lambda>(k, r). room_id r = k \<and> players r \<noteq> []) reg)"

text \<open>
  What a disconnect of \<open>sid\<close> makes of one room: its first entry of \<open>sid\<close> is dropped and
  the room goes when that empties it; and the notice the room is sent otherwise.
\<close>

definition room_after_disconnect :: "string \<Rightarrow> GameRoom \<Rightarrow> GameRoom option" where
  "room_after_disconnect sid r =
     (if \<exists>p\<in>set (players r). socketId p = sid then
        (let ps = remove_first (\<lambda>p. socketId p = sid) (players r)
         in if ps = [] then None else Some (r\<lparr>players := ps\<rparr>))
      else Some r)"

definition left_notice :: "string \<Rightarrow> GameRoom \<Rightarrow> emission list" where
  "left_notice sid r =
     (case find (\<lambda>p. socketId p = sid) (players r) of
        None \<Rightarrow> []
      | Some player \<Rightarrow>
          (let ps = remove_first (\<lambda>p. socketId p = sid) (players r)
           in if ps = [] then []
              else [(ToRoom (room_id r),
                     Player_left (room_id r) ps (name player @ '' has left the room'') (length ps))]))"


section \<open>Scenarios\<close>

text \<open>
  Two sockets connect; Ann (\<open>s1\<close>) joins room R1, then Bob (\<open>s2\<close>) does. \<open>ann_alone\<close> is
  the state before Bob joins, \<open>three_joined\<close> the state after a third socket has connected
  and joined, \<open>ann_twice\<close> the state after Ann has sent \<^verbatim>\<open>join_room\<close> for R1 twice.
\<close>

definition ann_bob_trace :: "(nat \<times> string \<times> event) list" where
  "ann_bob_trace =
     [(1, ''s1'', Connection), (2, ''s2'', Connection),
      (3, ''s1'', Join_room (join_data ''R1'' ''Ann'')),
      (4, ''s2'', Join_room (join_data ''R1'' ''Bob''))]"

definition ann_bob :: server_state where
  "ann_bob = exec ann_bob_trace init_state"

definition ann_alone :: server_state where
  "ann_alone = exec (take 3 ann_bob_trace) init_state"

definition three_joined :: server_state where
  "three_joined =
     exec (ann_bob_trace @
       [(5, ''s3'', Connection), (6, ''s3'', Join_room (join_data ''R1'' ''Cy''))]) init_state"

definition ann_twice :: server_state where
  "ann_twice =
     exec [(1, ''s1'', Connection),
           (2, ''s1'', Join_room (join_data ''R1'' ''Ann'')),
           (3, ''s1'', Join_room (join_data ''R1'' ''Ann''))] init_state"


section \<open>Lemmas on the registry\<close>

lemma findIndex_None_iff: "findIndex P xs = None \<longleftrightarrow> (\<forall>x\<in>set xs. \<not> P x)"
  by (induction xs) (auto split: option.splits)

lemma findIndex_splice1: "findIndex P xs = Some i \<Longrightarrow> splice1 i xs = remove_first P xs"
  by (induction xs arbitrary: i) (auto simp: splice1_def split: if_splits option.splits)

lemma remove_first_id: "\<forall>x\<in>set xs. \<not> P x \<Longrightarrow> remove_first P xs = xs"
  by (induction xs) auto

lemma set_remove_first: "set (remove_first P xs) \<subseteq> set xs"
  by (induction xs) auto

lemma remove_first_distinct:
  "distinct (map f xs) \<Longrightarrow> v \<notin> f ` set (remove_first (\<lambda>x. f x = v) xs)"
  by (induction xs) auto

lemma getRoomPlayers_remove:
  "getRoomPlayers (snd (removePlayerFromRoom reg rid sid)) rid =
     remove_first (\<lambda>p. socketId p = sid) (getRoomPlayers reg rid)"
  by (auto simp: getRoomPlayers_def removePlayerFromRoom_def update_conv' findIndex_splice1
        findIndex_None_iff remove_first_id split: option.splits)

lemma map_of_remove:
  "map_of (snd (removePlayerFromRoom reg rid sid)) =
     (case map_of reg rid of None \<Rightarrow> map_of reg
      | Some r \<Rightarrow> (map_of reg)(rid \<mapsto> r\<lparr>players := remove_first (\<lambda>p. socketId p = sid) (players r)\<rparr>))"
  by (auto simp: removePlayerFromRoom_def update_conv' findIndex_splice1
        findIndex_None_iff remove_first_id split: option.splits)

lemma set_update_subset: "set (AList.update k v al) \<subseteq> insert (k, v) (set al)"
  by (induction al) auto

lemma set_delete_subset: "set (AList.delete k al) \<subseteq> set al"
  by (auto simp: AList.delete_eq)

lemma rooms_ok_update:
  "rooms_ok reg \<Longrightarrow> room_id r = k \<Longrightarrow> players r \<noteq> [] \<Longrightarrow> rooms_ok (AList.update k r reg)"
  using set_update_subset[of k r reg]
  by (auto simp: rooms_ok_def distinct_update list_all_iff)

lemma rooms_ok_delete: "rooms_ok reg \<Longrightarrow> rooms_ok (AList.delete k reg)"
  using set_delete_subset[of k reg]
  by (auto simp: rooms_ok_def distinct_delete list_all_iff)

lemma rooms_ok_lookup:
  "rooms_ok reg \<Longrightarrow> map_of reg rid = Some r \<Longrightarrow> room_id r = rid \<and> players r \<noteq> []"
  by (auto simp: rooms_ok_def list_all_iff dest!: map_of_SomeD)

lemma rooms_ok_exists_iff:
  "rooms_ok reg \<Longrightarrow> roomExists reg rid \<longleftrightarrow> getRoomPlayers reg rid \<noteq> []"
  by (auto simp: roomExists_def getRoomPlayers_def dest: rooms_ok_lookup split: option.splits)

lemma truthy_Some [simp]: "truthy (Some s) = (s \<noteq> [])"
  by (simp add: truthy_def)

lemma truthy_None [simp]: "truthy None = False"
  by (simp add: truthy_def)

lemma roster_from_Suc:
  "roster_from (Suc n) ps =
     map (\<lambda>p. \<lparr>roster_name = name p, roster_socketId = socketId p, symbol = ''O''\<rparr>) ps"
  by (induction ps arbitrary: n) auto

lemma not_listed: "v \<notin> set (map f xs) \<Longrightarrow> \<forall>x\<in>set xs. f x \<noteq> v"
  by auto

lemma join_room_registry:
  assumes "roomId d = Some rid" and "rid \<noteq> []" and "playerName d = Some pn" and "pn \<noteq> []"
  shows "map_of (rooms (fst (join_room now sid d st))) =
           (map_of (rooms st))(rid \<mapsto>
              (case map_of (rooms st) rid of
                 None \<Rightarrow> \<lparr>room_id = rid, players = [], gameState = None, createdAt = now\<rparr>
               | Some r \<Rightarrow> r)
              \<lparr>players := getRoomPlayers (rooms st) rid @
                 [\<lparr>socketId = sid, name = pn, joinedAt = now\<rparr>]\<rparr>)"
  using assms
  by (auto simp: join_room_def Let_def roomExists_def createRoom_def addPlayerToRoom_def
        getRoomPlayers_def update_conv' split: option.splits)

lemma join_room_rooms_ok:
  "rooms_ok (rooms st) \<Longrightarrow> rooms_ok (rooms (fst (join_room now sid d st)))"
  by (auto simp: join_room_def Let_def createRoom_def addPlayerToRoom_def roomExists_def
        update_conv' intro!: rooms_ok_update dest: rooms_ok_lookup split: option.splits)

lemma removePlayer_update:
  "snd (removePlayerFromRoom reg rid sid) = reg \<or>
   (\<exists>r. map_of reg rid = Some r \<and>
        snd (removePlayerFromRoom reg rid sid) =
          AList.update rid (r\<lparr>players := remove_first (\<lambda>p. socketId p = sid) (players r)\<rparr>) reg)"
  by (auto simp: removePlayerFromRoom_def findIndex_splice1 split: option.splits)

lemma remove_then_clean_ok:
  fixes reg :: registry and rid sid :: string
  assumes "rooms_ok reg"
  defines "reg1 \<equiv> snd (removePlayerFromRoom reg rid sid)"
  shows "rooms_ok (if length (getRoomPlayers reg1 rid) > 0 then reg1 else snd (deleteRoom reg1 rid))"
proof -
  consider "reg1 = reg"
    | r where "map_of reg rid = Some r"
        "reg1 = AList.update rid (r\<lparr>players := remove_first (\<lambda>p. socketId p = sid) (players r)\<rparr>) reg"
    using removePlayer_update[of reg rid sid] unfolding reg1_def by blast
  then show ?thesis
  proof cases
    case 1
    then show ?thesis using assms(1) by (simp add: deleteRoom_def rooms_ok_delete)
  next
    case 2
    let ?r' = "r\<lparr>players := remove_first (\<lambda>p. socketId p = sid) (players r)\<rparr>"
    have id: "room_id ?r' = rid" using rooms_ok_lookup[OF assms(1) 2(1)] by simp
    have ps: "getRoomPlayers reg1 rid = players ?r'"
      by (simp add: 2(2) getRoomPlayers_def update_conv')
    show ?thesis
    proof (cases "players ?r' = []")
      case True
      then have e: "getRoomPlayers reg1 rid = []" using ps by simp
      have "snd (deleteRoom reg1 rid) = AList.delete rid reg"
        unfolding 2(2) deleteRoom_def by (simp add: delete_update_same)
      then show ?thesis
        using assms(1) e by (simp add: rooms_ok_delete)
    next
      case False
      then have ne: "getRoomPlayers reg1 rid \<noteq> []" using ps by simp
      have "rooms_ok reg1"
        unfolding 2(2) by (rule rooms_ok_update[OF assms(1) id False])
      then show ?thesis using ne by simp
    qed
  qed
qed

lemma leave_room_rooms_ok:
  "rooms_ok (rooms st) \<Longrightarrow> rooms_ok (rooms (fst (leave_room sid d st)))"
  using remove_then_clean_ok[of "rooms st" "the (roomId d)" sid]
  by (auto simp: leave_room_def Let_def split: if_splits)

lemma disconnect_room_rooms_ok:
  "rooms_ok (fst acc) \<Longrightarrow> rooms_ok (fst (disconnect_room sid room acc))"
  using remove_then_clean_ok[of "fst acc" "room_id room" sid]
  by (auto simp: disconnect_room_def Let_def split: option.splits if_splits)

lemma fold_disconnect_rooms_ok:
  "rooms_ok (fst acc) \<Longrightarrow> rooms_ok (fst (fold (disconnect_room sid) rs acc))"
  by (induction rs arbitrary: acc) (auto simp: disconnect_room_rooms_ok)

lemma disconnect_rooms_ok:
  "rooms_ok (rooms st) \<Longrightarrow> rooms_ok (rooms (fst (disconnect sid st)))"
  by (simp add: disconnect_def Let_def fold_disconnect_rooms_ok)

lemma step_rooms_ok: "rooms_ok (rooms st) \<Longrightarrow> rooms_ok (rooms (fst (step inp st)))"
proof -
  assume ok: "rooms_ok (rooms st)"
  obtain now sid ev where inp: "inp = (now, sid, ev)" by (cases inp) auto
  have "rooms_ok (rooms (fst (dispatch now sid ev st)))"
    using ok
    by (cases ev)
      (simp_all add: join_room_rooms_ok leave_room_rooms_ok disconnect_rooms_ok
         send_message_def game_start_def game_move_def game_reset_def Let_def)
  then show ?thesis using ok by (simp add: inp step_def connection_def)
qed

lemma exec_rooms_ok: "rooms_ok (rooms st) \<Longrightarrow> rooms_ok (rooms (exec inps st))"
  by (induction inps arbitrary: st) (auto simp: step_rooms_ok)

lemma reachable_rooms_ok: "rooms_ok (rooms (exec inps init_state))"
  by (rule exec_rooms_ok) (simp add: init_state_def rooms_ok_def)

lemma disconnect_room_map_of:
  assumes "map_of reg (room_id room) = Some room"
  shows "map_of (fst (disconnect_room sid room (reg, out))) =
           (map_of reg)(room_id room := room_after_disconnect sid room)"
proof (cases "find (\<lambda>p. socketId p = sid) (players room)")
  case None
  then have "\<not> (\<exists>p\<in>set (players room). socketId p = sid)"
    by (simp add: find_None_iff)
  then show ?thesis
    using assms None by (auto simp: disconnect_room_def room_after_disconnect_def)
next
  case (Some player)
  then have "find (\<lambda>p. socketId p = sid) (players room) \<noteq> None" by simp
  then have ex: "\<exists>p\<in>set (players room). socketId p = sid"
    unfolding find_None_iff by blast
  let ?ps = "remove_first (\<lambda>p. socketId p = sid) (players room)"
  have ps: "getRoomPlayers (snd (removePlayerFromRoom reg (room_id room) sid)) (room_id room) = ?ps"
    using assms unfolding getRoomPlayers_remove by (simp add: getRoomPlayers_def)
  have m: "map_of (snd (removePlayerFromRoom reg (room_id room) sid)) =
             (map_of reg)(room_id room \<mapsto> room\<lparr>players := ?ps\<rparr>)"
    using assms by (simp add: map_of_remove)
  show ?thesis
  proof (cases "?ps = []")
    case True
    then show ?thesis
      using Some ex ps m
      by (simp add: disconnect_room_def room_after_disconnect_def Let_def deleteRoom_def
            delete_conv')
  next
    case False
    then show ?thesis
      using Some ex ps m
      by (simp add: disconnect_room_def room_after_disconnect_def Let_def)
  qed
qed

lemma snapshot_players_remove:
  "map_of reg (room_id room) = Some room \<Longrightarrow>
   getRoomPlayers (snd (removePlayerFromRoom reg (room_id room) sid)) (room_id room) =
     remove_first (\<lambda>p. socketId p = sid) (players room)"
  unfolding getRoomPlayers_remove by (simp add: getRoomPlayers_def)

lemma disconnect_room_out:
  assumes "map_of reg (room_id room) = Some room"
  shows "snd (disconnect_room sid room (reg, out)) = out @ left_notice sid room"
proof (cases "find (\<lambda>p. socketId p = sid) (players room)")
  case None
  then show ?thesis by (simp add: disconnect_room_def left_notice_def)
next
  case (Some player)
  show ?thesis
    unfolding disconnect_room_def left_notice_def Let_def Some
    by (simp add: snapshot_players_remove[OF assms])
qed

lemma fold_disconnect_result:
  assumes "distinct (map room_id rs)"
    and "\<forall>room\<in>set rs. map_of (fst acc) (room_id room) = Some room"
  shows "map_of (fst (fold (disconnect_room sid) rs acc)) rid =
           (if rid \<in> room_id ` set rs
            then (case map_of (fst acc) rid of None \<Rightarrow> None | Some r \<Rightarrow> room_after_disconnect sid r)
            else map_of (fst acc) rid)
         \<and> snd (fold (disconnect_room sid) rs acc) = snd acc @ concat (map (left_notice sid) rs)"
  using assms
proof (induction rs arbitrary: acc)
  case Nil
  then show ?case by simp
next
  case (Cons room rs)
  obtain reg out where acc: "acc = (reg, out)" by (cases acc)
  have here: "map_of reg (room_id room) = Some room"
    using Cons.prems(2) by (simp add: acc)
  let ?acc' = "disconnect_room sid room (reg, out)"
  have m: "map_of (fst ?acc') = (map_of reg)(room_id room := room_after_disconnect sid room)"
    by (rule disconnect_room_map_of[OF here])
  have o: "snd ?acc' = out @ left_notice sid room"
    by (rule disconnect_room_out[OF here])
  have notin: "room_id room \<notin> room_id ` set rs"
    using Cons.prems(1) by auto
  have rest: "\<forall>r\<in>set rs. map_of (fst ?acc') (room_id r) = Some r"
  proof
    fix r assume r: "r \<in> set rs"
    then have "room_id r \<noteq> room_id room" using notin by (metis imageI)
    moreover have "map_of reg (room_id r) = Some r"
      using Cons.prems(2) r by (simp add: acc)
    ultimately show "map_of (fst ?acc') (room_id r) = Some r"
      unfolding m by simp
  qed
  have d: "distinct (map room_id rs)" using Cons.prems(1) by simp
  have f: "fold (disconnect_room sid) (room # rs) acc = fold (disconnect_room sid) rs ?acc'"
    by (simp add: acc)
  have snd_ok: "snd (fold (disconnect_room sid) rs ?acc') =
                  snd acc @ concat (map (left_notice sid) (room # rs))"
    using Cons.IH[OF d rest] by (simp add: o acc)
  have fst_ok: "map_of (fst (fold (disconnect_room sid) rs ?acc')) rid =
           (if rid \<in> room_id ` set (room # rs)
            then (case map_of (fst acc) rid of None \<Rightarrow> None | Some r \<Rightarrow> room_after_disconnect sid r)
            else map_of (fst acc) rid)"
  proof (cases "rid = room_id room")
    case True
    then have "map_of (fst (fold (disconnect_room sid) rs ?acc')) rid = map_of (fst ?acc') rid"
      using Cons.IH[OF d rest] notin by simp
    then show ?thesis using True here by (simp add: m acc)
  next
    case False
    then have "map_of (fst ?acc') rid = map_of reg rid" by (simp add: m)
    then show ?thesis
      using Cons.IH[OF d rest] False by (simp add: acc)
  qed
  show ?case unfolding f using fst_ok snd_ok by blast
qed

lemma rooms_ok_snapshot:
  assumes "rooms_ok reg"
  shows "distinct (map room_id (getAllRooms reg))"
    and "\<forall>room\<in>set (getAllRooms reg). map_of reg (room_id room) = Some room"
    and "room_id ` set (getAllRooms reg) = fst ` set reg"
proof -
  have ids: "map room_id (getAllRooms reg) = map fst reg"
    using assms by (auto simp: rooms_ok_def getAllRooms_def list_all_iff)
  show "distinct (map room_id (getAllRooms reg))"
    using assms by (simp add: ids rooms_ok_def)
  show "\<forall>room\<in>set (getAllRooms reg). map_of reg (room_id room) = Some room"
    using assms by (auto simp: rooms_ok_def getAllRooms_def list_all_iff)
  show "room_id ` set (getAllRooms reg) = fst ` set reg"
    using ids by (metis list.set_map)
qed

lemma disconnect_registry:
  assumes "rooms_ok (rooms st)"
  shows "map_of (rooms (fst (disconnect sid st))) rid =
           (case map_of (rooms st) rid of None \<Rightarrow> None | Some r \<Rightarrow> room_after_disconnect sid r)"
proof -
  note snap = rooms_ok_snapshot[OF assms]
  have "map_of (fst (fold (disconnect_room sid) (getAllRooms (rooms st)) (rooms st, []))) rid =
          (if rid \<in> fst ` set (rooms st)
           then (case map_of (rooms st) rid of None \<Rightarrow> None | Some r \<Rightarrow> room_after_disconnect sid r)
           else map_of (rooms st) rid)"
    using fold_disconnect_result[of "getAllRooms (rooms st)" "(rooms st, [])" sid rid] snap
    by simp
  moreover have "rid \<in> fst ` set (rooms st) \<longleftrightarrow> map_of (rooms st) rid \<noteq> None"
    by (simp add: map_of_eq_None_iff)
  ultimately show ?thesis
    by (cases "map_of (rooms st) rid") (simp_all add: disconnect_def Let_def)
qed

lemma disconnect_emissions:
  assumes "rooms_ok (rooms st)"
  shows "snd (disconnect sid st) = concat (map (left_notice sid) (getAllRooms (rooms st)))"
  using fold_disconnect_result[of "getAllRooms (rooms st)" "(rooms st, [])" sid undefined]
    rooms_ok_snapshot[OF assms]
  by (simp add: disconnect_def Let_def)

lemma disconnect_clears_unique_entries:
  assumes "rooms_ok (rooms st)"
    and "\<forall>r\<in>set (getAllRooms (rooms st)). distinct (map socketId (players r))"
  shows "sid \<notin> socketId ` set (getRoomPlayers (rooms (fst (disconnect sid st))) rid)"
proof (cases "map_of (rooms st) rid")
  case None
  then show ?thesis
    using disconnect_registry[OF assms(1), of sid rid] by (simp add: getRoomPlayers_def)
next
  case (Some r)
  then have "r \<in> set (getAllRooms (rooms st))"
    by (force simp: getAllRooms_def dest: map_of_SomeD)
  then have dist: "distinct (map socketId (players r))" using assms(2) by blast
  have m: "map_of (rooms (fst (disconnect sid st))) rid = room_after_disconnect sid r"
    using disconnect_registry[OF assms(1), of sid rid] Some by simp
  show ?thesis
  proof (cases "room_after_disconnect sid r")
    case None
    then show ?thesis using m by (simp add: getRoomPlayers_def)
  next
    case (Some r')
    have "sid \<notin> socketId ` set (players r')"
      using Some remove_first_distinct[OF dist, of sid]
      by (auto simp: room_after_disconnect_def Let_def split: if_splits)
    then show ?thesis using m Some by (simp add: getRoomPlayers_def)
  qed
qed

lemma addPlayerToRoom_players:
  "getRoomPlayers (snd (addPlayerToRoom reg rid p)) rid =
     (if roomExists reg rid then getRoomPlayers reg rid @ [p] else [])"
  by (auto simp: addPlayerToRoom_def getRoomPlayers_def roomExists_def update_conv'
        split: option.splits)


section \<open>Membership in one room only\<close>

text \<open>
  C1. The claim: a connection is in the players list of at most one room of the registry,
  and joining room B while listed in room A leaves it listed in B only. What the handler
  does: its forced leave acts on the socket's groups alone (\<^verbatim>\<open>socket.leave\<close>), and
  \<open>join_room\<close> changes no players list but that of the room joined. Every other room
  keeps its list, so a connection listed in A that joins B is listed in both.
\<close>

theorem join_room_keeps_other_rooms:
  assumes "roomId d = Some rid" and "rid \<noteq> []" and "playerName d = Some pn" and "pn \<noteq> []"
    and "other \<noteq> rid"
  shows "getRoomPlayers (rooms (fst (join_room now sid d st))) other =
           getRoomPlayers (rooms st) other
         \<and> sid \<in> socketId ` set (getRoomPlayers (rooms (fst (join_room now sid d st))) rid)"
proof -
  note reg = join_room_registry[OF assms(1-4), of now sid st]
  have "getRoomPlayers (rooms (fst (join_room now sid d st))) other =
          getRoomPlayers (rooms st) other"
    using assms(5) by (simp add: getRoomPlayers_def reg)
  moreover have "sid \<in> socketId ` set (getRoomPlayers (rooms (fst (join_room now sid d st))) rid)"
    by (simp add: getRoomPlayers_def reg)
  ultimately show ?thesis by (rule conjI)
qed

text \<open>
  At the failing input: Ann (\<open>s1\<close>), alone in R1, joins R2. She stays in the list of R1, is
  in the list of R2, and her socket is in the group R2 only.
\<close>

theorem join_room_keeps_other_rooms_witness:
  "connected ann_alone ''s1''
   \<and> map socketId (getRoomPlayers (rooms ann_alone) ''R1'') = [''s1'']
   \<and> getRoomPlayers (rooms (fst (join_room 9 ''s1'' (join_data ''R2'' ''Ann'') ann_alone))) ''R1'' =
       getRoomPlayers (rooms ann_alone) ''R1''
   \<and> map socketId
        (getRoomPlayers (rooms (fst (join_room 9 ''s1'' (join_data ''R2'' ''Ann'') ann_alone))) ''R2'') =
       [''s1'']
   \<and> socket_rooms (transport (fst (join_room 9 ''s1'' (join_data ''R2'' ''Ann'') ann_alone))) ''s1'' =
       [''s1'', ''R2'']"
proof -
  have d: "roomId (join_data ''R2'' ''Ann'') = Some ''R2''"
    "playerName (join_data ''R2'' ''Ann'') = Some ''Ann''"
    by (simp_all add: join_data_def no_data_def)
  have a: "map socketId (getRoomPlayers (rooms ann_alone) ''R1'') = [''s1'']" by code_simp
  have k: "connected ann_alone ''s1''" by code_simp
  have b: "map socketId
        (getRoomPlayers (rooms (fst (join_room 9 ''s1'' (join_data ''R2'' ''Ann'') ann_alone))) ''R2'') =
       [''s1'']" by code_simp
  have c: "socket_rooms (transport (fst (join_room 9 ''s1'' (join_data ''R2'' ''Ann'') ann_alone))) ''s1'' =
       [''s1'', ''R2'']" by code_simp
  have e: "getRoomPlayers (rooms (fst (join_room 9 ''s1'' (join_data ''R2'' ''Ann'') ann_alone))) ''R1'' =
       getRoomPlayers (rooms ann_alone) ''R1''"
    by (rule join_room_keeps_other_rooms[OF d(1) _ d(2), THEN conjunct1]) simp_all
  show ?thesis using k a b c e by blast
qed


section \<open>Duplicate entries\<close>

text \<open>
  C2. The claim: no players list holds two entries with the same socket id. What the
  handler does: \<open>join_room\<close> appends an entry for the joining socket to the list of the room,
  whatever the list holds; a socket that joins the room it is in is listed twice.
\<close>

theorem join_room_appends_unchecked:
  assumes "roomId d = Some rid" and "rid \<noteq> []" and "playerName d = Some pn" and "pn \<noteq> []"
  shows "getRoomPlayers (rooms (fst (join_room now sid d st))) rid =
           getRoomPlayers (rooms st) rid @ [\<lparr>socketId = sid, name = pn, joinedAt = now\<rparr>]"
  by (simp add: getRoomPlayers_def join_room_registry[OF assms] split: option.splits)

text \<open>At the failing input: Ann (\<open>s1\<close>), in R1, sends \<^verbatim>\<open>join_room\<close> for R1 again.\<close>

theorem join_room_appends_unchecked_witness:
  "connected ann_alone ''s1''
   \<and> map socketId (getRoomPlayers (rooms ann_alone) ''R1'') = [''s1'']
   \<and> getRoomPlayers (rooms (fst (join_room 9 ''s1'' (join_data ''R1'' ''Ann'') ann_alone))) ''R1'' =
       getRoomPlayers (rooms ann_alone) ''R1'' @ [\<lparr>socketId = ''s1'', name = ''Ann'', joinedAt = 9\<rparr>]
   \<and> map socketId
        (getRoomPlayers (rooms (fst (join_room 9 ''s1'' (join_data ''R1'' ''Ann'') ann_alone))) ''R1'') =
       [''s1'', ''s1'']"
proof -
  have d: "roomId (join_data ''R1'' ''Ann'') = Some ''R1''" "playerName (join_data ''R1'' ''Ann'') = Some ''Ann''"
    by (simp_all add: join_data_def no_data_def)
  have a: "map socketId (getRoomPlayers (rooms ann_alone) ''R1'') = [''s1'']" by code_simp
  have k: "connected ann_alone ''s1''" by code_simp
  have b: "map socketId
        (getRoomPlayers (rooms (fst (join_room 9 ''s1'' (join_data ''R1'' ''Ann'') ann_alone))) ''R1'') =
       [''s1'', ''s1'']" by code_simp
  have e: "getRoomPlayers (rooms (fst (join_room 9 ''s1'' (join_data ''R1'' ''Ann'') ann_alone))) ''R1'' =
       getRoomPlayers (rooms ann_alone) ''R1'' @ [\<lparr>socketId = ''s1'', name = ''Ann'', joinedAt = 9\<rparr>]"
    by (rule join_room_appends_unchecked[OF d(1) _ d(2)]) simp_all
  show ?thesis using k a b e by blast
qed


section \<open>Empty rooms are deleted\<close>

text \<open>
  C3. After every sequence of events, a room id is in the registry if and only if its
  players list has an entry; and when \<^verbatim>\<open>leave_room\<close> or a disconnect takes the only
  entry of a room's list, the room is deleted by that same handler. (A player is an entry
  of the list.)
\<close>

theorem room_present_iff_occupied:
  "(roomExists (rooms (exec inps init_state)) rid \<longleftrightarrow>
      getRoomPlayers (rooms (exec inps init_state)) rid \<noteq> [])
   \<and> (getRoomPlayers (rooms (exec inps init_state)) rid = [p] \<and> socketId p = sid \<longrightarrow>
        (roomId d = Some rid \<and> rid \<noteq> [] \<longrightarrow>
           \<not> roomExists (rooms (fst (leave_room sid d (exec inps init_state)))) rid)
        \<and> \<not> roomExists (rooms (fst (disconnect sid (exec inps init_state)))) rid)"
proof -
  define st where "st = exec inps init_state"
  have ok: "rooms_ok (rooms st)" unfolding st_def by (rule reachable_rooms_ok)
  have inv: "roomExists (rooms st) rid \<longleftrightarrow> getRoomPlayers (rooms st) rid \<noteq> []"
    by (rule rooms_ok_exists_iff[OF ok])
  have last: "\<not> roomExists (rooms (fst (leave_room sid d st))) rid"
    if one: "getRoomPlayers (rooms st) rid = [p]" and p: "socketId p = sid"
      and d: "roomId d = Some rid" "rid \<noteq> []"
  proof -
    have ex: "roomExists (rooms st) rid" using inv one by simp
    have gone: "getRoomPlayers (snd (removePlayerFromRoom (rooms st) rid sid)) rid = []"
      unfolding getRoomPlayers_remove one using p by simp
    show ?thesis
      using d ex gone
      by (simp add: leave_room_def Let_def deleteRoom_def roomExists_def delete_conv')
  qed
  have disc: "\<not> roomExists (rooms (fst (disconnect sid st))) rid"
    if one: "getRoomPlayers (rooms st) rid = [p]" and p: "socketId p = sid"
  proof -
    obtain r where r: "map_of (rooms st) rid = Some r" "players r = [p]"
      using one by (auto simp: getRoomPlayers_def split: option.splits)
    have "room_after_disconnect sid r = None"
      using r(2) p by (simp add: room_after_disconnect_def)
    then show ?thesis
      using disconnect_registry[OF ok, of sid rid] r(1) by (simp add: roomExists_def)
  qed
  show ?thesis
    using inv last disc unfolding st_def by blast
qed

theorem room_present_iff_occupied_witness:
  "getRoomPlayers (rooms ann_alone) ''R1'' = [\<lparr>socketId = ''s1'', name = ''Ann'', joinedAt = 3\<rparr>]
   \<and> roomExists (rooms ann_alone) ''R1''
   \<and> \<not> roomExists (rooms (fst (leave_room ''s1'' (join_data ''R1'' ''Ann'') ann_alone))) ''R1''
   \<and> \<not> roomExists (rooms (fst (disconnect ''s1'' ann_alone))) ''R1''"
proof -
  let ?p = "\<lparr>socketId = ''s1'', name = ''Ann'', joinedAt = 3\<rparr>"
  have a: "getRoomPlayers (rooms (exec (take 3 ann_bob_trace) init_state)) ''R1'' = [?p]"
    by code_simp
  then have ne: "getRoomPlayers (rooms (exec (take 3 ann_bob_trace) init_state)) ''R1'' \<noteq> []"
    by simp
  have p: "socketId ?p = ''s1''" by simp
  have d: "roomId (join_data ''R1'' ''Ann'') = Some ''R1''" "''R1'' \<noteq> []"
    by (simp_all add: join_data_def no_data_def)
  show ?thesis
    unfolding ann_alone_def
    using room_present_iff_occupied[of "take 3 ann_bob_trace" "''R1''" ?p "''s1''" "join_data ''R1'' ''Ann''"]
      a ne p d
    by blast
qed


section \<open>Starting a game\<close>

text \<open>
  With three players in the room, \<^verbatim>\<open>game_start\<close> addresses the first two only: the third
  is on the roster and is sent nothing.
\<close>

theorem game_start_third_player_counterexample:
  "map socketId (getRoomPlayers (rooms three_joined) ''R1'') = [''s1'', ''s2'', ''s3'']
   \<and> map fst (snd (game_start ''s1'' (start_data ''R1'' ''tictactoe'') three_joined)) =
       [ToRoom ''s1'', ToRoom ''s2'']
   \<and> map (\<lambda>e. recipients (transport three_joined) (fst e))
        (snd (game_start ''s1'' (start_data ''R1'' ''tictactoe'') three_joined)) =
       [[''s1''], [''s2'']]"
  by code_simp

text \<open>
  C4, amended. For a room with at least two players, \<^verbatim>\<open>game_start\<close> with non-empty roomId
  and gameType emits exactly two events: one to the player at index 0 with the symbol X
  and one to the player at index 1 with the symbol O, each with the full roster, on
  which index 0 is labelled X and every later index O. Players from index 2 on are sent
  nothing. The state is unchanged.
\<close>

theorem game_start_first_two:
  assumes "roomId d = Some rid" and "rid \<noteq> []" and "gameType d = Some gt" and "gt \<noteq> []"
    and "getRoomPlayers (rooms st) rid = p0 # p1 # others"
  shows "game_start sid d st =
           (st, [(ToRoom (socketId p0),
                  Game_start_out gt
                    (\<lparr>roster_name = name p0, roster_socketId = socketId p0, symbol = ''X''\<rparr> #
                     \<lparr>roster_name = name p1, roster_socketId = socketId p1, symbol = ''O''\<rparr> #
                     map (\<lambda>p. \<lparr>roster_name = name p, roster_socketId = socketId p, symbol = ''O''\<rparr>) others)
                    ''X''),
                 (ToRoom (socketId p1),
                  Game_start_out gt
                    (\<lparr>roster_name = name p0, roster_socketId = socketId p0, symbol = ''X''\<rparr> #
                     \<lparr>roster_name = name p1, roster_socketId = socketId p1, symbol = ''O''\<rparr> #
                     map (\<lambda>p. \<lparr>roster_name = name p, roster_socketId = socketId p, symbol = ''O''\<rparr>) others)
                    ''O'')])"
  using assms by (simp add: game_start_def Let_def roster_from_Suc)

theorem game_start_first_two_witness:
  "getRoomPlayers (rooms three_joined) ''R1'' =
     [\<lparr>socketId = ''s1'', name = ''Ann'', joinedAt = 3\<rparr>,
      \<lparr>socketId = ''s2'', name = ''Bob'', joinedAt = 4\<rparr>,
      \<lparr>socketId = ''s3'', name = ''Cy'', joinedAt = 6\<rparr>]
   \<and> game_start ''s3'' (start_data ''R1'' ''tictactoe'') three_joined =
       (three_joined,
        [(ToRoom ''s1'',
          Game_start_out ''tictactoe''
            [\<lparr>roster_name = ''Ann'', roster_socketId = ''s1'', symbol = ''X''\<rparr>,
             \<lparr>roster_name = ''Bob'', roster_socketId = ''s2'', symbol = ''O''\<rparr>,
             \<lparr>roster_name = ''Cy'', roster_socketId = ''s3'', symbol = ''O''\<rparr>] ''X''),
         (ToRoom ''s2'',
          Game_start_out ''tictactoe''
            [\<lparr>roster_name = ''Ann'', roster_socketId = ''s1'', symbol = ''X''\<rparr>,
             \<lparr>roster_name = ''Bob'', roster_socketId = ''s2'', symbol = ''O''\<rparr>,
             \<lparr>roster_name = ''Cy'', roster_socketId = ''s3'', symbol = ''O''\<rparr>] ''O'')])"
proof -
  have d: "roomId (start_data ''R1'' ''tictactoe'') = Some ''R1''"
    "gameType (start_data ''R1'' ''tictactoe'') = Some ''tictactoe''"
    by (simp_all add: start_data_def no_data_def)
  have a: "getRoomPlayers (rooms three_joined) ''R1'' =
     [\<lparr>socketId = ''s1'', name = ''Ann'', joinedAt = 3\<rparr>,
      \<lparr>socketId = ''s2'', name = ''Bob'', joinedAt = 4\<rparr>,
      \<lparr>socketId = ''s3'', name = ''Cy'', joinedAt = 6\<rparr>]"
    by code_simp
  show ?thesis
    using a game_start_first_two[OF d(1) _ d(2) _ a, of "''s3''"] by simp
qed


text \<open>
  C5. In a room of exactly two players, \<^verbatim>\<open>game_start\<close> sends X to the first entry of the
  players list and O to the second, whichever socket sent the event; and the list is in
  the order of addition, \<open>addPlayerToRoom\<close> putting the new player last.
\<close>

theorem game_start_two_players:
  assumes "roomId d = Some rid" and "rid \<noteq> []" and "gameType d = Some gt" and "gt \<noteq> []"
    and "getRoomPlayers (rooms st) rid = [p0, p1]"
  shows "game_start sid d st =
           (st, [(ToRoom (socketId p0),
                  Game_start_out gt
                    [\<lparr>roster_name = name p0, roster_socketId = socketId p0, symbol = ''X''\<rparr>,
                     \<lparr>roster_name = name p1, roster_socketId = socketId p1, symbol = ''O''\<rparr>] ''X''),
                 (ToRoom (socketId p1),
                  Game_start_out gt
                    [\<lparr>roster_name = name p0, roster_socketId = socketId p0, symbol = ''X''\<rparr>,
                     \<lparr>roster_name = name p1, roster_socketId = socketId p1, symbol = ''O''\<rparr>] ''O'')])
         \<and> getRoomPlayers (snd (addPlayerToRoom reg rid' p)) rid' =
             (if roomExists reg rid' then getRoomPlayers reg rid' @ [p] else [])"
proof -
  have "game_start sid d st =
           (st, [(ToRoom (socketId p0),
                  Game_start_out gt
                    [\<lparr>roster_name = name p0, roster_socketId = socketId p0, symbol = ''X''\<rparr>,
                     \<lparr>roster_name = name p1, roster_socketId = socketId p1, symbol = ''O''\<rparr>] ''X''),
                 (ToRoom (socketId p1),
                  Game_start_out gt
                    [\<lparr>roster_name = name p0, roster_socketId = socketId p0, symbol = ''X''\<rparr>,
                     \<lparr>roster_name = name p1, roster_socketId = socketId p1, symbol = ''O''\<rparr>] ''O'')])"
    using assms by (simp add: game_start_def Let_def)
  then show ?thesis using addPlayerToRoom_players[of reg rid' p] by (rule conjI)
qed

text \<open>Ann joined first, Bob second; Bob sends \<^verbatim>\<open>game_start\<close>: X goes to Ann, O to Bob.\<close>

theorem game_start_two_players_witness:
  "getRoomPlayers (rooms ann_bob) ''R1'' =
     [\<lparr>socketId = ''s1'', name = ''Ann'', joinedAt = 3\<rparr>,
      \<lparr>socketId = ''s2'', name = ''Bob'', joinedAt = 4\<rparr>]
   \<and> game_start ''s2'' (start_data ''R1'' ''tictactoe'') ann_bob =
       (ann_bob,
        [(ToRoom ''s1'',
          Game_start_out ''tictactoe''
            [\<lparr>roster_name = ''Ann'', roster_socketId = ''s1'', symbol = ''X''\<rparr>,
             \<lparr>roster_name = ''Bob'', roster_socketId = ''s2'', symbol = ''O''\<rparr>] ''X''),
         (ToRoom ''s2'',
          Game_start_out ''tictactoe''
            [\<lparr>roster_name = ''Ann'', roster_socketId = ''s1'', symbol = ''X''\<rparr>,
             \<lparr>roster_name = ''Bob'', roster_socketId = ''s2'', symbol = ''O''\<rparr>] ''O'')])
   \<and> recipients (transport ann_bob) (ToRoom ''s1'') = [''s1'']
   \<and> recipients (transport ann_bob) (ToRoom ''s2'') = [''s2'']"
proof -
  have d: "roomId (start_data ''R1'' ''tictactoe'') = Some ''R1''"
    "gameType (start_data ''R1'' ''tictactoe'') = Some ''tictactoe''"
    by (simp_all add: start_data_def no_data_def)
  have a: "getRoomPlayers (rooms ann_bob) ''R1'' =
     [\<lparr>socketId = ''s1'', name = ''Ann'', joinedAt = 3\<rparr>,
      \<lparr>socketId = ''s2'', name = ''Bob'', joinedAt = 4\<rparr>]"
    by code_simp
  have r: "recipients (transport ann_bob) (ToRoom ''s1'') = [''s1'']"
    "recipients (transport ann_bob) (ToRoom ''s2'') = [''s2'']"
    by code_simp+
  show ?thesis
    using a r game_start_two_players[OF d(1) _ d(2) _ a, of "''s2''", THEN conjunct1] by simp
qed


text \<open>
  C6. \<^verbatim>\<open>game_start\<close> emits nothing and leaves the state as it is when roomId or gameType is
  missing, and when the room named is absent or has fewer than two players.
\<close>

theorem game_start_silent:
  "(\<not> truthy (roomId d) \<or> \<not> truthy (gameType d) \<longrightarrow> game_start sid d st = (st, []))
   \<and> (roomId d = Some rid \<and>
       (\<not> roomExists (rooms st) rid \<or> length (getRoomPlayers (rooms st) rid) < 2) \<longrightarrow>
      game_start sid d st = (st, []))"
  by (auto simp: game_start_def Let_def roomExists_def getRoomPlayers_def split: option.splits)

theorem game_start_silent_witness:
  "roomId (start_data ''R1'' ''tictactoe'') = Some ''R1''
   \<and> length (getRoomPlayers (rooms ann_alone) ''R1'') = 1
   \<and> game_start ''s1'' (start_data ''R1'' ''tictactoe'') ann_alone = (ann_alone, [])
   \<and> \<not> roomExists (rooms ann_alone) ''R7''
   \<and> game_start ''s1'' (start_data ''R7'' ''tictactoe'') ann_alone = (ann_alone, [])
   \<and> game_start ''s1'' no_data ann_bob = (ann_bob, [])"
proof -
  have d: "roomId (start_data ''R1'' ''tictactoe'') = Some ''R1''"
    "roomId (start_data ''R7'' ''tictactoe'') = Some ''R7''"
    "\<not> truthy (roomId no_data)"
    by (simp_all add: start_data_def no_data_def)
  have a: "length (getRoomPlayers (rooms ann_alone) ''R1'') = 1" by code_simp
  then have a': "length (getRoomPlayers (rooms ann_alone) ''R1'') < 2" by simp
  have b: "\<not> roomExists (rooms ann_alone) ''R7''" by code_simp
  show ?thesis
    using d a a' b
      game_start_silent[of "start_data ''R1'' ''tictactoe''" "''s1''" ann_alone "''R1''"]
      game_start_silent[of "start_data ''R7'' ''tictactoe''" "''s1''" ann_alone "''R7''"]
      game_start_silent[of no_data "''s1''" ann_bob "''R1''"]
    by blast
qed


section \<open>Validation errors\<close>




section \<open>Chat messages\<close>




section \<open>Disconnect\<close>

text \<open>
  C9. The claim: a disconnecting connection is removed from the players list of every
  room that contains it, emptied rooms are deleted and the others are sent \<^verbatim>\<open>player_left\<close>
  with the new roster and count. What the handler does, in every state the server can
  reach: in each room that lists the socket it drops the first entry of the socket, and
  that one only; the room is deleted when this empties it and is sent \<^verbatim>\<open>player_left\<close>
  otherwise. A socket listed twice in a room stays listed there after it is gone.
\<close>

theorem disconnect_removes_first_entry:
  "map_of (rooms (fst (disconnect sid (exec inps init_state)))) rid =
     (case map_of (rooms (exec inps init_state)) rid of
        None \<Rightarrow> None
      | Some r \<Rightarrow> room_after_disconnect sid r)
   \<and> snd (disconnect sid (exec inps init_state)) =
       concat (map (left_notice sid) (getAllRooms (rooms (exec inps init_state))))"
  using disconnect_registry[OF reachable_rooms_ok, of sid inps rid]
    disconnect_emissions[OF reachable_rooms_ok, of sid inps]
  by (rule conjI)

text \<open>
  At the failing input: Ann (\<open>s1\<close>) has sent \<^verbatim>\<open>join_room\<close> for R1 twice and disconnects. No
  socket is connected any more, and R1 is still in the registry with \<open>s1\<close> on its list.
\<close>

theorem disconnect_removes_first_entry_witness:
  "connected ann_twice ''s1''
   \<and> map socketId (getRoomPlayers (rooms ann_twice) ''R1'') = [''s1'', ''s1'']
   \<and> map_of (rooms (fst (disconnect ''s1'' ann_twice))) ''R1'' =
       Some \<lparr>room_id = ''R1'',
             players = [\<lparr>socketId = ''s1'', name = ''Ann'', joinedAt = 3\<rparr>],
             gameState = None, createdAt = 2\<rparr>
   \<and> transport (fst (disconnect ''s1'' ann_twice)) = []"
proof -
  let ?tr = "[(1, ''s1'', Connection),
           (2, ''s1'', Join_room (join_data ''R1'' ''Ann'')),
           (3, ''s1'', Join_room (join_data ''R1'' ''Ann''))]"
  have a: "map socketId (getRoomPlayers (rooms ann_twice) ''R1'') = [''s1'', ''s1'']"
    by code_simp
  have b: "transport (fst (disconnect ''s1'' ann_twice)) = []" by code_simp
  have k: "connected ann_twice ''s1''" by code_simp
  have c: "map_of (rooms (fst (disconnect ''s1'' (exec ?tr init_state)))) ''R1'' =
             (case map_of (rooms (exec ?tr init_state)) ''R1'' of
                None \<Rightarrow> None | Some r \<Rightarrow> room_after_disconnect ''s1'' r)"
    using disconnect_removes_first_entry[of "''s1''" ?tr "''R1''"] by (rule conjunct1)
  have d: "(case map_of (rooms (exec ?tr init_state)) ''R1'' of
                None \<Rightarrow> None | Some r \<Rightarrow> room_after_disconnect ''s1'' r) =
           Some \<lparr>room_id = ''R1'',
             players = [\<lparr>socketId = ''s1'', name = ''Ann'', joinedAt = 3\<rparr>],
             gameState = None, createdAt = 2\<rparr>"
    by code_simp
  have e: "map_of (rooms (fst (disconnect ''s1'' ann_twice))) ''R1'' =
       Some \<lparr>room_id = ''R1'',
             players = [\<lparr>socketId = ''s1'', name = ''Ann'', joinedAt = 3\<rparr>],
             gameState = None, createdAt = 2\<rparr>"
    unfolding ann_twice_def by (rule trans[OF c d])
  show ?thesis using k a b e by blast
qed


section \<open>Leaving a room one is not in\<close>

text \<open>
  C10. In a state the server can reach, \<^verbatim>\<open>leave_room\<close> for an existing room whose players
  list does not hold the sender emits \<^verbatim>\<open>player_left\<close> to the room, with the unchanged
  roster and count and the sender's playerName in the message, and a success response to
  the sender; the registry is not changed.
\<close>

theorem leave_room_by_non_member:
  assumes "st = exec inps init_state"
    and "roomId d = Some rid" and "rid \<noteq> []"
    and "roomExists (rooms st) rid"
    and "\<forall>p\<in>set (getRoomPlayers (rooms st) rid). socketId p \<noteq> sid"
  shows "leave_room sid d st =
           (st\<lparr>transport := socket_leave (transport st) sid rid\<rparr>,
            [(ToRoom rid,
              Player_left rid (getRoomPlayers (rooms st) rid)
                (js_str (playerName d) @ '' has left the room'')
                (length (getRoomPlayers (rooms st) rid))),
             (ToSocket sid, Leave_room_response ''success'' (''You have left room '' @ rid))])
         \<and> rooms (fst (leave_room sid d st)) = rooms st"
proof -
  have ok: "rooms_ok (rooms st)" unfolding assms(1) by (rule reachable_rooms_ok)
  have ne: "getRoomPlayers (rooms st) rid \<noteq> []"
    using rooms_ok_exists_iff[OF ok] assms(4) by simp
  obtain r where r: "map_of (rooms st) rid = Some r"
    using assms(4) by (auto simp: roomExists_def)
  have "findIndex (\<lambda>p. socketId p = sid) (players r) = None"
    using assms(5) r by (simp add: findIndex_None_iff getRoomPlayers_def)
  then have same: "snd (removePlayerFromRoom (rooms st) rid sid) = rooms st"
    using r by (simp add: removePlayerFromRoom_def)
  show ?thesis
    using assms(2,3,4) ne by (simp add: leave_room_def same Let_def)
qed

theorem leave_room_by_non_member_witness:
  "roomExists (rooms ann_alone) ''R1''
   \<and> map socketId (getRoomPlayers (rooms ann_alone) ''R1'') = [''s1'']
   \<and> leave_room ''s2'' (leave_data ''R1'' ''Bob'') ann_alone =
       (ann_alone\<lparr>transport := socket_leave (transport ann_alone) ''s2'' ''R1''\<rparr>,
        [(ToRoom ''R1'',
          Player_left ''R1'' (getRoomPlayers (rooms ann_alone) ''R1'')
            ''Bob has left the room'' (length (getRoomPlayers (rooms ann_alone) ''R1''))),
         (ToSocket ''s2'', Leave_room_response ''success'' ''You have left room R1'')])
   \<and> rooms (fst (leave_room ''s2'' (leave_data ''R1'' ''Bob'') ann_alone)) = rooms ann_alone"
proof -
  have d: "roomId (leave_data ''R1'' ''Bob'') = Some ''R1''"
    by (simp add: leave_data_def no_data_def)
  have m1: "js_str (playerName (leave_data ''R1'' ''Bob'')) @ '' has left the room'' =
              ''Bob has left the room''"
    by (simp add: leave_data_def no_data_def js_str_def)
  have m2: "''You have left room '' @ ''R1'' = ''You have left room R1''" by simp
  have e: "''R1'' \<noteq> []" by simp
  have a: "roomExists (rooms ann_alone) ''R1''" by code_simp
  have b: "map socketId (getRoomPlayers (rooms ann_alone) ''R1'') = [''s1'']" by code_simp
  have "''s2'' \<notin> set (map socketId (getRoomPlayers (rooms ann_alone) ''R1''))"
    unfolding b by simp
  then have c: "\<forall>p\<in>set (getRoomPlayers (rooms ann_alone) ''R1''). socketId p \<noteq> ''s2''"
    by (rule not_listed)
  note t = leave_room_by_non_member[OF ann_alone_def d e a c, unfolded m1 m2]
  show ?thesis
    using a b t by blast
qed

end
